theory Spec2Isabelle
  imports Complex_Main
begin

section \<open>Values shared by the live map and the push-channel provider\<close>

text \<open>
  JavaScript numbers that are only stored and compared (coordinates, heat weights, zoom
  levels) are modelled as reals; a timestamp (\<^verbatim>\<open>Date.now()\<close>) is an integer number of
  milliseconds and is passed in, since the clock is an input of the program.
\<close>

type_synonym number = real
type_synonym timestamp = int

subsection \<open>String helpers\<close>

text \<open>
  \<^verbatim>\<open>String.prototype.toLowerCase\<close>, on the ASCII letters. A character outside ASCII is
  left as it is: the projection only compares the result with the ASCII words
  \<^verbatim>\<open>online\<close>, \<^verbatim>\<open>busy\<close> and \<^verbatim>\<open>on_trip\<close>, and no character outside ASCII lower-cases to a
  letter of these words without adding a further character.
\<close>

definition toLowerChar :: "char \<Rightarrow> char" where
  "toLowerChar c =
     (let n = (of_char c :: nat) in if 65 \<le> n \<and> n \<le> 90 then char_of (n + 32) else c)"

definition toLowerCase :: "string \<Rightarrow> string" where
  "toLowerCase s = map toLowerChar s"

section \<open>AdminLiveMap: location cache and marker projection\<close>

text \<open>The fields of a driver summary that the map reads.\<close>

record DriverSummary =
  id_drv :: string
  status :: string

record DriverLocation =
  latitude :: number
  longitude :: number
  updatedAt :: timestamp

record LocationEvent =
  driverId :: string
  latitude_ev :: number
  longitude_ev :: number

text \<open>
  A marker's position is the pair \<^verbatim>\<open>[loc.latitude, loc.longitude]\<close>; a coordinate is
  \<open>None\<close> when the property read gives undefined.
\<close>

record Marker =
  id_m :: string
  position :: "number option \<times> number option"

text \<open>
  The state \<^verbatim>\<open>locationsByDriverId\<close>: a plain object used as a dictionary keyed by driver
  id. The map holds its own properties, the entries written by \<^verbatim>\<open>onLocation\<close>.
\<close>

type_synonym LocationCache = "string \<rightharpoonup> DriverLocation"

text \<open>
  The state starts as \<^verbatim>\<open>{}\<close> and every update builds an object literal, so the object
  always inherits from \<^verbatim>\<open>Object.prototype\<close>. These are the names of the members it
  inherits; each of them is a function or an object.
\<close>

definition objectPrototypeNames :: "string list" where
  "objectPrototypeNames =
     [''constructor'', ''__defineGetter__'', ''__defineSetter__'', ''hasOwnProperty'',
      ''__lookupGetter__'', ''__lookupSetter__'', ''isPrototypeOf'', ''propertyIsEnumerable'',
      ''toString'', ''valueOf'', ''__proto__'', ''toLocaleString'']"

text \<open>
  What the property read \<^verbatim>\<open>locationsByDriverId[key]\<close> gives: an own entry, else an
  inherited member, else undefined.
\<close>

datatype Member = Own DriverLocation | Inherited | Undefined

definition getMember :: "LocationCache \<Rightarrow> string \<Rightarrow> Member" where
  "getMember obj key =
     (case obj key of
        Some loc \<Rightarrow> Own loc
      | None \<Rightarrow> if key \<in> set objectPrototypeNames then Inherited else Undefined)"

text \<open>Truthiness of such a value (\<^verbatim>\<open>!loc\<close> negates it): only undefined is falsy.\<close>

fun truthyMember :: "Member \<Rightarrow> bool" where
  "truthyMember (Own loc) = True"
| "truthyMember Inherited = True"
| "truthyMember Undefined = False"

text \<open>
  \<^verbatim>\<open>loc.latitude\<close> and \<^verbatim>\<open>loc.longitude\<close>: an inherited member has neither property.
\<close>

fun latitudeOf :: "Member \<Rightarrow> number option" where
  "latitudeOf (Own loc) = Some (latitude loc)"
| "latitudeOf Inherited = None"
| "latitudeOf Undefined = None"

fun longitudeOf :: "Member \<Rightarrow> number option" where
  "longitudeOf (Own loc) = Some (longitude loc)"
| "longitudeOf Inherited = None"
| "longitudeOf Undefined = None"

text \<open>
  \<^verbatim>\<open>onLocation\<close>: the state updater \<^verbatim>\<open>prev => ({...prev, [data.driverId]: {...}})\<close>.
\<close>

definition onLocation :: "timestamp \<Rightarrow> LocationEvent \<Rightarrow> LocationCache \<Rightarrow> LocationCache" where
  "onLocation now data prev =
     prev(driverId data \<mapsto>
       \<lparr>latitude = latitude_ev data, longitude = longitude_ev data, updatedAt = now\<rparr>)"

text \<open>A run of location events, each with the clock value at its arrival.\<close>

fun recordLocations :: "(timestamp \<times> LocationEvent) list \<Rightarrow> LocationCache \<Rightarrow> LocationCache" where
  "recordLocations [] cache = cache"
| "recordLocations ((now, data) # rest) cache = recordLocations rest (onLocation now data cache)"

text \<open>
  The callback of \<^verbatim>\<open>.map\<close> in both projections: \<^verbatim>\<open>null\<close> when the read of the driver's id
  is falsy, else the marker of the driver.
\<close>

definition toMarker :: "LocationCache \<Rightarrow> DriverSummary \<Rightarrow> Marker option" where
  "toMarker locationsByDriverId d =
     (let loc = getMember locationsByDriverId (id_drv d) in
      if \<not> truthyMember loc then None
      else Some \<lparr>id_m = id_drv d, position = (latitudeOf loc, longitudeOf loc)\<rparr>)"

text \<open>\<^verbatim>\<open>.filter(Boolean)\<close> on a list of markers and nulls.\<close>

definition filterBoolean :: "'a option list \<Rightarrow> 'a list" where
  "filterBoolean xs = map the (filter (\<lambda>m. m \<noteq> None) xs)"

definition isAvailableStatus :: "DriverSummary \<Rightarrow> bool" where
  "isAvailableStatus d = (toLowerCase (status d) = ''online'')"

definition isEngagedStatus :: "DriverSummary \<Rightarrow> bool" where
  "isEngagedStatus d = (let s = toLowerCase (status d) in s = ''busy'' \<or> s = ''on_trip'')"

definition availableMarkers :: "DriverSummary list \<Rightarrow> LocationCache \<Rightarrow> Marker list" where
  "availableMarkers drivers locationsByDriverId =
     filterBoolean (map (toMarker locationsByDriverId) (filter isAvailableStatus drivers))"

definition engagedMarkers :: "DriverSummary list \<Rightarrow> LocationCache \<Rightarrow> Marker list" where
  "engagedMarkers drivers locationsByDriverId =
     filterBoolean (map (toMarker locationsByDriverId) (filter isEngagedStatus drivers))"

text \<open>\<^verbatim>\<open>driversResponse?.drivers ?? []\<close> and \<^verbatim>\<open>liveRides?.rides ?? []\<close>.\<close>

definition orEmpty :: "'a list option \<Rightarrow> 'a list" where
  "orEmpty resp = (case resp of None \<Rightarrow> [] | Some xs \<Rightarrow> xs)"

subsection \<open>Heat point cloud\<close>

text \<open>
  The origin of a live ride: \<open>None\<close> stands for every value that \<^verbatim>\<open>Number.isFinite\<close>
  rejects (NaN, an infinity, null, undefined, a value that is not a number).
\<close>

record LiveRide =
  originLatitude :: "number option"
  originLongitude :: "number option"

definition isFinite :: "number option \<Rightarrow> bool" where
  "isFinite x = (x \<noteq> None)"

datatype HeatMode = supply_mode | demand_mode

type_synonym HeatPoint = "number option \<times> number option \<times> number"

definition weight :: "HeatPoint \<Rightarrow> number" where
  "weight p = snd (snd p)"

definition heatPoints ::
  "HeatMode \<Rightarrow> LiveRide list option \<Rightarrow> Marker list \<Rightarrow> Marker list \<Rightarrow> HeatPoint list" where
  "heatPoints heatMode rides availableMs engagedMs =
     (if heatMode = demand_mode then
        map (\<lambda>r. (originLatitude r, originLongitude r, 1))
          (filter (\<lambda>r. isFinite (originLatitude r) \<and> isFinite (originLongitude r)) (orEmpty rides))
      else
        (let engaged = map (\<lambda>m. (fst (position m), snd (position m), 1)) engagedMs;
             available = map (\<lambda>m. (fst (position m), snd (position m), 0.4)) availableMs
         in available @ engaged))"

text \<open>The whole derivation of the component, from the two snapshots and the cache.\<close>

definition liveMapHeatPoints ::
  "HeatMode \<Rightarrow> LiveRide list option \<Rightarrow> DriverSummary list option \<Rightarrow> LocationCache \<Rightarrow> HeatPoint list" where
  "liveMapHeatPoints heatMode rides driversResponse locationsByDriverId =
     (let drivers = orEmpty driversResponse
      in heatPoints heatMode rides
           (availableMarkers drivers locationsByDriverId)
           (engagedMarkers drivers locationsByDriverId))"

subsection \<open>Heat radius\<close>

definition baseRadius :: number where
  "baseRadius = 26"

definition zoomFactor :: number where
  "zoomFactor = 0.2"

definition adjustedRadius :: "number \<Rightarrow> number" where
  "adjustedRadius currentZoom = baseRadius * (1 + (12 - currentZoom) * zoomFactor)"

definition heatRadius :: "number \<Rightarrow> number" where
  "heatRadius currentZoom = max 10 (min 50 (adjustedRadius currentZoom))"

text \<open>\<^verbatim>\<open>HeatLayer\<close>: no layer for an empty cloud, else a layer with the radius of the zoom.\<close>

definition HeatLayer :: "HeatPoint list \<Rightarrow> number \<Rightarrow> number option" where
  "HeatLayer points currentZoom = (if points = [] then None else Some (heatRadius currentZoom))"

section \<open>SignalRProvider: hub URL, connection state, event handlers\<close>

subsection \<open>Hub URL\<close>

definition endsWith :: "string \<Rightarrow> string \<Rightarrow> bool" where
  "endsWith s suffix = (length suffix \<le> length s \<and> drop (length s - length suffix) s = suffix)"

definition startsWith :: "string \<Rightarrow> string \<Rightarrow> bool" where
  "startsWith s p = (take (length p) s = p)"

definition stripTrailingSlash :: "string \<Rightarrow> string" where
  "stripTrailingSlash url = (if endsWith url ''/'' then take (length url - 1) url else url)"

text \<open>The environment values read by \<^verbatim>\<open>resolveHubBaseUrl\<close>; \<open>None\<close> is an undefined one.\<close>

record Env =
  VITE_HUB_API_URL :: "string option"
  VITE_HUB_URL :: "string option"
  VITE_API_URL :: "string option"

text \<open>Truthiness of a string or undefined, and \<^verbatim>\<open>a || b\<close> on such values.\<close>

definition truthy :: "string option \<Rightarrow> bool" where
  "truthy v = (case v of None \<Rightarrow> False | Some s \<Rightarrow> s \<noteq> [])"

definition orElse :: "string option \<Rightarrow> string option \<Rightarrow> string option" where
  "orElse a b = (if truthy a then a else b)"

text \<open>\<^verbatim>\<open>/^https?:\/\//i.test(api)\<close>.\<close>

definition isHttpUrl :: "string \<Rightarrow> bool" where
  "isHttpUrl api =
     (let l = toLowerCase api in startsWith l ''http://'' \<or> startsWith l ''https://'')"

text \<open>\<^verbatim>\<open>s.replace(/\/api$/i, '')\<close>.\<close>

definition dropApiSuffix :: "string \<Rightarrow> string" where
  "dropApiSuffix s =
     (if endsWith (toLowerCase s) ''/api'' then take (length s - 4) s else s)"

text \<open>The value of the second branch: \<^verbatim>\<open>`${origin}/hubs`\<close>.\<close>

definition hubFromApi :: "string \<Rightarrow> string" where
  "hubFromApi api = (let origin = dropApiSuffix (stripTrailingSlash api) in origin @ ''/hubs'')"

definition fallbackHubUrl :: string where
  "fallbackHubUrl = ''https://ecoride-4560.onrender.com/hubs''"

definition explicitHub :: "Env \<Rightarrow> string option" where
  "explicitHub env = orElse (VITE_HUB_API_URL env) (VITE_HUB_URL env)"

definition resolveHubBaseUrl :: "Env \<Rightarrow> string" where
  "resolveHubBaseUrl env =
     (let explicit = explicitHub env in
      if truthy explicit then stripTrailingSlash (the explicit)
      else
        (let api = VITE_API_URL env in
         if truthy api \<and> isHttpUrl (the api) then hubFromApi (the api)
         else fallbackHubUrl))"

text \<open>
  The resolution as the specification words it, to be compared with the one above: the
  explicit override when set, else a URL derived from the REST base when that is set,
  else the fallback.
\<close>

definition specHubBaseUrl :: "Env \<Rightarrow> string" where
  "specHubBaseUrl env =
     (if truthy (explicitHub env) then stripTrailingSlash (the (explicitHub env))
      else if truthy (VITE_API_URL env) then hubFromApi (the (VITE_API_URL env))
      else fallbackHubUrl)"

subsection \<open>State of the provider and of the mounted map\<close>

text \<open>The states of a hub connection, as the SignalR client library names them.\<close>

datatype HubConnectionState = Disconnected | Connecting | Connected | Disconnecting | Reconnecting

record AdminToast =
  title :: string
  message :: string

text \<open>
  A driver event as it arrives: either field may be missing from the payload.
\<close>

record DriverEvent =
  id_ev :: "string option"
  fullName :: "string option"

text \<open>
  A query key is an array of strings; the second part of a driver key is the payload's
  \<^verbatim>\<open>id\<close>, undefined (\<open>None\<close>) when the payload has none.
\<close>

type_synonym QueryKey = "string option list"

text \<open>
  \<open>invalidated\<close> is the query client seen from here: the keys passed to
  \<^verbatim>\<open>invalidateQueries\<close> so far, in call order. \<open>toastTimeoutRef\<close> tells whether a
  dismissal timer is pending. \<open>locationsByDriverId\<close> belongs to the mounted map.
\<close>

record AppState =
  connectionState :: HubConnectionState
  toast :: "AdminToast option"
  toastTimeoutRef :: bool
  invalidated :: "QueryKey list"
  locationsByDriverId :: LocationCache

definition initialState :: AppState where
  "initialState =
     \<lparr>connectionState = Disconnected, toast = None, toastTimeoutRef = False,
      invalidated = [], locationsByDriverId = Map.empty\<rparr>"

definition isConnected :: "AppState \<Rightarrow> bool" where
  "isConnected s = (connectionState s = Connected)"

definition staleGroups :: "AppState \<Rightarrow> QueryKey set" where
  "staleGroups s = set (invalidated s)"

text \<open>
  The cache's lookup as the projection performs it: the coordinates read from the member
  of this name, or nothing when the member is falsy.
\<close>

definition getLocation :: "AppState \<Rightarrow> string \<Rightarrow> (number option \<times> number option) option" where
  "getLocation s entityId =
     (let loc = getMember (locationsByDriverId s) entityId in
      if \<not> truthyMember loc then None else Some (latitudeOf loc, longitudeOf loc))"

subsection \<open>Toasts and invalidation\<close>

definition showToast :: "AdminToast \<Rightarrow> AppState \<Rightarrow> AppState" where
  "showToast next s = s\<lparr>toast := Some next, toastTimeoutRef := True\<rparr>"

definition toastTimeout :: "AppState \<Rightarrow> AppState" where
  "toastTimeout s = s\<lparr>toast := None, toastTimeoutRef := False\<rparr>"

definition dismissToast :: "AppState \<Rightarrow> AppState" where
  "dismissToast s = s\<lparr>toast := None\<rparr>"

definition invalidateQueries :: "QueryKey \<Rightarrow> AppState \<Rightarrow> AppState" where
  "invalidateQueries queryKey s = s\<lparr>invalidated := invalidated s @ [queryKey]\<rparr>"

text \<open>\<^verbatim>\<open>driver.fullName || 'A driver'\<close>.\<close>

definition nameOrGeneric :: "DriverEvent \<Rightarrow> string" where
  "nameOrGeneric driver =
     (case fullName driver of
        None \<Rightarrow> ''A driver''
      | Some n \<Rightarrow> if n = [] then ''A driver'' else n)"

subsection \<open>Event handlers\<close>

text \<open>
  A handler reads properties of its argument, so a hub message that carries no argument
  (\<open>None\<close>: the handler receives undefined) makes it throw a TypeError at the first such
  read. The outcome of a handler is the new state, or the error together with the state
  that the calls made before the throw have left.
\<close>

datatype error = TypeError

type_synonym Outcome = "(error \<times> AppState) + AppState"

definition onDriverRegistered :: "DriverEvent option \<Rightarrow> AppState \<Rightarrow> Outcome" where
  "onDriverRegistered payload s =
     (case payload of
        None \<Rightarrow> Inl (TypeError, s)
      | Some driver \<Rightarrow>
          (let s1 = showToast \<lparr>title = ''New driver registration'',
                               message = nameOrGeneric driver @ '' is pending approval.''\<rparr> s;
               s2 = invalidateQueries [Some ''pendingDrivers''] s1;
               s3 = invalidateQueries [Some ''adminStats''] s2
           in Inr s3))"

definition onDriverApproved :: "DriverEvent option \<Rightarrow> AppState \<Rightarrow> Outcome" where
  "onDriverApproved payload s =
     (case payload of
        None \<Rightarrow> Inl (TypeError, s)
      | Some driver \<Rightarrow>
          (let s1 = showToast \<lparr>title = ''Driver approved'',
                               message = nameOrGeneric driver @ '' was approved.''\<rparr> s;
               s2 = invalidateQueries [Some ''pendingDrivers''] s1;
               s3 = invalidateQueries [Some ''drivers''] s2;
               s4 = invalidateQueries [Some ''adminStats''] s3;
               s5 = invalidateQueries [Some ''driver'', id_ev driver] s4
           in Inr s5))"

definition onDriverRejected :: "DriverEvent option \<Rightarrow> AppState \<Rightarrow> Outcome" where
  "onDriverRejected payload s =
     (case payload of
        None \<Rightarrow> Inl (TypeError, s)
      | Some driver \<Rightarrow>
          (let s1 = showToast \<lparr>title = ''Driver rejected'',
                               message = nameOrGeneric driver @ '' was rejected.''\<rparr> s;
               s2 = invalidateQueries [Some ''pendingDrivers''] s1;
               s3 = invalidateQueries [Some ''drivers''] s2;
               s4 = invalidateQueries [Some ''adminStats''] s3;
               s5 = invalidateQueries [Some ''driver'', id_ev driver] s4
           in Inr s5))"

text \<open>
  The three toast handlers read \<^verbatim>\<open>driver.fullName\<close> before their first call, so they throw
  with the state untouched. \<^verbatim>\<open>DriverStatusChanged\<close> reads \<^verbatim>\<open>data.id\<close> only for its third
  invalidation, after the first two are done.
\<close>

definition onDriverStatusChanged :: "DriverEvent option \<Rightarrow> AppState \<Rightarrow> Outcome" where
  "onDriverStatusChanged payload s =
     (let s1 = invalidateQueries [Some ''drivers''] s;
          s2 = invalidateQueries [Some ''adminStats''] s1
      in case payload of
           None \<Rightarrow> Inl (TypeError, s2)
         | Some data \<Rightarrow> Inr (invalidateQueries [Some ''driver'', id_ev data] s2))"

text \<open>The provider's handler of a location event only logs it.\<close>

definition onDriverLocationUpdated :: "LocationEvent \<Rightarrow> AppState \<Rightarrow> AppState" where
  "onDriverLocationUpdated data s = s"

text \<open>The map's handler of the same event, on the state of the application.\<close>

definition mapOnLocation :: "timestamp \<Rightarrow> LocationEvent \<Rightarrow> AppState \<Rightarrow> AppState" where
  "mapOnLocation now data s =
     s\<lparr>locationsByDriverId := onLocation now data (locationsByDriverId s)\<rparr>"

datatype HubEvent =
    DriverRegistered "DriverEvent option"
  | DriverApproved "DriverEvent option"
  | DriverRejected "DriverEvent option"
  | DriverStatusChanged "DriverEvent option"
  | DriverLocationUpdated LocationEvent

text \<open>
  The connection calls every handler registered under the event's name: the provider's,
  and for a location event the map's after it.
\<close>

fun dispatch :: "timestamp \<Rightarrow> HubEvent \<Rightarrow> AppState \<Rightarrow> Outcome" where
  "dispatch now (DriverRegistered payload) s = onDriverRegistered payload s"
| "dispatch now (DriverApproved payload) s = onDriverApproved payload s"
| "dispatch now (DriverRejected payload) s = onDriverRejected payload s"
| "dispatch now (DriverStatusChanged payload) s = onDriverStatusChanged payload s"
| "dispatch now (DriverLocationUpdated data) s =
     Inr (mapOnLocation now data (onDriverLocationUpdated data s))"

subsection \<open>Connection lifecycle\<close>

text \<open>
  The callbacks that call \<^verbatim>\<open>setConnectionState\<close>: the three lifecycle callbacks of the
  connection and the two outcomes of \<^verbatim>\<open>start()\<close>.
\<close>

datatype Lifecycle = onclose | onreconnecting | onreconnected | startResolved | startRejected

fun lifecycle :: "Lifecycle \<Rightarrow> AppState \<Rightarrow> AppState" where
  "lifecycle onclose s = s\<lparr>connectionState := Disconnected\<rparr>"
| "lifecycle onreconnecting s = s\<lparr>connectionState := Reconnecting\<rparr>"
| "lifecycle onreconnected s = s\<lparr>connectionState := Connected\<rparr>"
| "lifecycle startResolved s = s\<lparr>connectionState := Connected\<rparr>"
| "lifecycle startRejected s = s\<lparr>connectionState := Disconnected\<rparr>"

text \<open>The values the indicator takes, one per signal, in order.\<close>

fun connectionStates :: "Lifecycle list \<Rightarrow> AppState \<Rightarrow> HubConnectionState list" where
  "connectionStates [] s = []"
| "connectionStates (l # ls) s =
     (let s' = lifecycle l s in connectionState s' # connectionStates ls s')"

text \<open>Everything that can happen to the state once the provider is mounted.\<close>

datatype Action =
    Hub HubEvent
  | Channel Lifecycle
  | ToastTimeout
  | ToastDismiss

fun step :: "timestamp \<Rightarrow> Action \<Rightarrow> AppState \<Rightarrow> Outcome" where
  "step now (Hub ev) s = dispatch now ev s"
| "step now (Channel l) s = Inr (lifecycle l s)"
| "step now ToastTimeout s = Inr (toastTimeout s)"
| "step now ToastDismiss s = Inr (dismissToast s)"

section \<open>Properties of the marker projection\<close>

lemma toMarker_Own:
  "locs (id_drv d) = Some l \<Longrightarrow>
     toMarker locs d = Some \<lparr>id_m = id_drv d, position = (Some (latitude l), Some (longitude l))\<rparr>"
  by (simp add: toMarker_def getMember_def)

lemma toMarker_Inherited:
  "locs (id_drv d) = None \<Longrightarrow> id_drv d \<in> set objectPrototypeNames \<Longrightarrow>
     toMarker locs d = Some \<lparr>id_m = id_drv d, position = (None, None)\<rparr>"
  by (simp add: toMarker_def getMember_def)

lemma toMarker_Undefined:
  "locs (id_drv d) = None \<Longrightarrow> id_drv d \<notin> set objectPrototypeNames \<Longrightarrow> toMarker locs d = None"
  by (simp add: toMarker_def getMember_def)

lemma toMarker_id: "toMarker locs d = Some m \<Longrightarrow> id_m m = id_drv d"
  by (auto simp: toMarker_def Let_def split: if_splits)

lemma filterBoolean_simps:
  "filterBoolean [] = []"
  "filterBoolean (None # xs) = filterBoolean xs"
  "filterBoolean (Some x # xs) = x # filterBoolean xs"
  by (simp_all add: filterBoolean_def)

lemma set_projection:
  "set (filterBoolean (map (toMarker locs) (filter P drivers))) =
     {m. \<exists>d \<in> set drivers. P d \<and> toMarker locs d = Some m}"
proof (induction drivers)
  case Nil
  show ?case by (simp add: filterBoolean_simps)
next
  case (Cons d ds)
  show ?case
  proof (cases "P d")
    case False
    then show ?thesis using Cons.IH by auto
  next
    case True
    show ?thesis
    proof (cases "toMarker locs d")
      case None
      then show ?thesis using True Cons.IH by (auto simp: filterBoolean_simps)
    next
      case (Some m)
      then show ?thesis using True Cons.IH by (auto simp: filterBoolean_simps)
    qed
  qed
qed

lemma status_exclusive: "\<not> (isAvailableStatus d \<and> isEngagedStatus d)"
  by (auto simp: isAvailableStatus_def isEngagedStatus_def Let_def)

lemma distinct_same_id:
  "distinct (map id_drv drivers) \<Longrightarrow> d \<in> set drivers \<Longrightarrow> d' \<in> set drivers \<Longrightarrow>
     id_drv d = id_drv d' \<Longrightarrow> d = d'"
  by (meson distinct_map inj_onD)

lemma lower_examples:
  "toLowerCase ''online'' = ''online''" "toLowerCase ''Online'' = ''online''"
  "toLowerCase ''ONLINE'' = ''online''" "toLowerCase ''busy'' = ''busy''"
  "toLowerCase ''BUSY'' = ''busy''" "toLowerCase ''on_trip'' = ''on_trip''"
  "toLowerCase ''On_Trip'' = ''on_trip''" "toLowerCase ''offline'' = ''offline''"
  by code_simp+

text \<open>
  The two marker sets never share an id when the driver ids are pairwise distinct,
  whatever the cache and the ids are.
\<close>

lemma marker_ids_disjoint:
  assumes "distinct (map id_drv drivers)"
  shows "id_m ` set (availableMarkers drivers locs) \<inter> id_m ` set (engagedMarkers drivers locs) = {}"
proof (rule ccontr)
  assume "id_m ` set (availableMarkers drivers locs) \<inter> id_m ` set (engagedMarkers drivers locs) \<noteq> {}"
  then obtain m m' where m: "m \<in> set (availableMarkers drivers locs)"
    and m': "m' \<in> set (engagedMarkers drivers locs)" and eq: "id_m m = id_m m'" by auto
  from m obtain d where d: "d \<in> set drivers" "isAvailableStatus d" "toMarker locs d = Some m"
    unfolding availableMarkers_def set_projection by blast
  from m' obtain d' where d': "d' \<in> set drivers" "isEngagedStatus d'" "toMarker locs d' = Some m'"
    unfolding engagedMarkers_def set_projection by blast
  from d(3) d'(3) eq have "id_drv d = id_drv d'" by (simp add: toMarker_id)
  with assms d d' have "d = d'" by (simp add: distinct_same_id)
  with d d' status_exclusive show False by blast
qed

text \<open>
  For driver ids that are not names of inherited members, the projection is the one the
  specification describes: the markers are exactly those of the drivers with the
  qualifying status and a cached location, and an id with no cached location has no
  marker.
\<close>

lemma markers_of_plain_ids:
  assumes "\<forall>d \<in> set drivers. id_drv d \<notin> set objectPrototypeNames"
  shows "set (availableMarkers drivers locs) =
           {\<lparr>id_m = id_drv d, position = (Some (latitude l), Some (longitude l))\<rparr> | d l.
              d \<in> set drivers \<and> toLowerCase (status d) = ''online'' \<and> locs (id_drv d) = Some l}"
    and "set (engagedMarkers drivers locs) =
           {\<lparr>id_m = id_drv d, position = (Some (latitude l), Some (longitude l))\<rparr> | d l.
              d \<in> set drivers \<and>
              (toLowerCase (status d) = ''busy'' \<or> toLowerCase (status d) = ''on_trip'') \<and>
              locs (id_drv d) = Some l}"
    and "locs i = None \<Longrightarrow>
            i \<notin> id_m ` set (availableMarkers drivers locs) \<and>
            i \<notin> id_m ` set (engagedMarkers drivers locs)"
proof -
  have tm: "toMarker locs d = Some m \<longleftrightarrow>
      (\<exists>l. locs (id_drv d) = Some l \<and>
           m = \<lparr>id_m = id_drv d, position = (Some (latitude l), Some (longitude l))\<rparr>)"
    if "d \<in> set drivers" for d m
  proof (cases "locs (id_drv d)")
    case None
    with that assms show ?thesis by (simp add: toMarker_Undefined)
  next
    case (Some l)
    then show ?thesis by (auto simp: toMarker_Own)
  qed
  show "set (availableMarkers drivers locs) =
           {\<lparr>id_m = id_drv d, position = (Some (latitude l), Some (longitude l))\<rparr> | d l.
              d \<in> set drivers \<and> toLowerCase (status d) = ''online'' \<and> locs (id_drv d) = Some l}"
    unfolding availableMarkers_def set_projection isAvailableStatus_def using tm by blast
  show "set (engagedMarkers drivers locs) =
           {\<lparr>id_m = id_drv d, position = (Some (latitude l), Some (longitude l))\<rparr> | d l.
              d \<in> set drivers \<and>
              (toLowerCase (status d) = ''busy'' \<or> toLowerCase (status d) = ''on_trip'') \<and>
              locs (id_drv d) = Some l}"
    unfolding engagedMarkers_def set_projection isEngagedStatus_def Let_def using tm by blast
  show "i \<notin> id_m ` set (availableMarkers drivers locs) \<and>
            i \<notin> id_m ` set (engagedMarkers drivers locs)" if "locs i = None"
  proof -
    have "\<not> (\<exists>d \<in> set drivers. \<exists>m. toMarker locs d = Some m \<and> id_m m = i)"
    proof
      assume "\<exists>d \<in> set drivers. \<exists>m. toMarker locs d = Some m \<and> id_m m = i"
      then obtain d m where d: "d \<in> set drivers" "toMarker locs d = Some m" "id_m m = i" by blast
      from d(1,2) tm obtain l where "locs (id_drv d) = Some l" by blast
      moreover from d(2,3) have "id_drv d = i" using toMarker_id by fastforce
      ultimately show False using that by simp
    qed
    then show ?thesis
      unfolding availableMarkers_def engagedMarkers_def set_projection by auto
  qed
qed

text \<open>
  C1, at an input where the code departs from it. The snapshot holds the driver
  \<^verbatim>\<open>constructor\<close> (online) and the driver B (on_trip), with distinct ids, and the cache
  holds a location for B only. The read of \<^verbatim>\<open>constructor\<close> finds the member every object
  inherits, which is truthy, so the available markers are not empty: they hold a marker
  for \<^verbatim>\<open>constructor\<close> with undefined coordinates, although no location is cached for it.
\<close>

theorem inherited_id_gets_marker:
  "distinct (map id_drv [\<lparr>id_drv = ''constructor'', status = ''online''\<rparr>,
                         \<lparr>id_drv = ''B'', status = ''on_trip''\<rparr>])
   \<and> [''B'' \<mapsto> \<lparr>latitude = -15.78, longitude = 35.01, updatedAt = (1000::int)\<rparr>] ''constructor'' = None
   \<and> availableMarkers
        [\<lparr>id_drv = ''constructor'', status = ''online''\<rparr>, \<lparr>id_drv = ''B'', status = ''on_trip''\<rparr>]
        [''B'' \<mapsto> \<lparr>latitude = -15.78, longitude = 35.01, updatedAt = 1000\<rparr>]
      = [\<lparr>id_m = ''constructor'', position = (None, None)\<rparr>]
   \<and> engagedMarkers
        [\<lparr>id_drv = ''constructor'', status = ''online''\<rparr>, \<lparr>id_drv = ''B'', status = ''on_trip''\<rparr>]
        [''B'' \<mapsto> \<lparr>latitude = -15.78, longitude = 35.01, updatedAt = 1000\<rparr>]
      = [\<lparr>id_m = ''B'', position = (Some (-15.78), Some 35.01)\<rparr>]"
proof -
  have inh: "''constructor'' \<in> set objectPrototypeNames"
    by (simp add: objectPrototypeNames_def)
  have av: "availableMarkers
        [\<lparr>id_drv = ''constructor'', status = ''online''\<rparr>, \<lparr>id_drv = ''B'', status = ''on_trip''\<rparr>]
        [''B'' \<mapsto> \<lparr>latitude = -15.78, longitude = 35.01, updatedAt = 1000\<rparr>]
      = [\<lparr>id_m = ''constructor'', position = (None, None)\<rparr>]"
    by (simp add: availableMarkers_def isAvailableStatus_def lower_examples filterBoolean_simps
        toMarker_def getMember_def inh)
  have en: "engagedMarkers
        [\<lparr>id_drv = ''constructor'', status = ''online''\<rparr>, \<lparr>id_drv = ''B'', status = ''on_trip''\<rparr>]
        [''B'' \<mapsto> \<lparr>latitude = -15.78, longitude = 35.01, updatedAt = 1000\<rparr>]
      = [\<lparr>id_m = ''B'', position = (Some (-15.78), Some 35.01)\<rparr>]"
    by (simp add: engagedMarkers_def isEngagedStatus_def lower_examples filterBoolean_simps
        toMarker_def getMember_def)
  show ?thesis unfolding av en by simp
qed

text \<open>
  C10. The status filters of the projection ignore letter case: a driver passes the
  available filter exactly when its status equals \<^verbatim>\<open>online\<close> up to case, and the engaged
  filter exactly when it equals \<^verbatim>\<open>busy\<close> or \<^verbatim>\<open>on_trip\<close> up to case; such a driver with a
  cached location gets its marker in the corresponding set. \<^verbatim>\<open>Online\<close> and \<^verbatim>\<open>ONLINE\<close>
  are available, \<^verbatim>\<open>BUSY\<close> and \<^verbatim>\<open>On_Trip\<close> are engaged.
\<close>

theorem status_case_insensitive:
  "(isAvailableStatus d \<longleftrightarrow> toLowerCase (status d) = toLowerCase ''online'')
   \<and> (isEngagedStatus d \<longleftrightarrow>
        toLowerCase (status d) = toLowerCase ''busy'' \<or>
        toLowerCase (status d) = toLowerCase ''on_trip'')
   \<and> (d \<in> set drivers \<and> toLowerCase (status d) = toLowerCase ''online'' \<and>
        locs (id_drv d) = Some l \<longrightarrow>
        \<lparr>id_m = id_drv d, position = (Some (latitude l), Some (longitude l))\<rparr>
          \<in> set (availableMarkers drivers locs))
   \<and> (d \<in> set drivers \<and>
        (toLowerCase (status d) = toLowerCase ''busy'' \<or>
         toLowerCase (status d) = toLowerCase ''on_trip'') \<and>
        locs (id_drv d) = Some l \<longrightarrow>
        \<lparr>id_m = id_drv d, position = (Some (latitude l), Some (longitude l))\<rparr>
          \<in> set (engagedMarkers drivers locs))
   \<and> isAvailableStatus (d\<lparr>status := ''Online''\<rparr>)
   \<and> isAvailableStatus (d\<lparr>status := ''ONLINE''\<rparr>)
   \<and> isEngagedStatus (d\<lparr>status := ''BUSY''\<rparr>)
   \<and> isEngagedStatus (d\<lparr>status := ''On_Trip''\<rparr>)"
proof -
  have a: "isAvailableStatus d \<longleftrightarrow> toLowerCase (status d) = toLowerCase ''online''"
    by (simp add: isAvailableStatus_def lower_examples)
  have e: "isEngagedStatus d \<longleftrightarrow>
        toLowerCase (status d) = toLowerCase ''busy'' \<or>
        toLowerCase (status d) = toLowerCase ''on_trip''"
    by (simp add: isEngagedStatus_def Let_def lower_examples)
  have am: "d \<in> set drivers \<and> toLowerCase (status d) = toLowerCase ''online'' \<and>
        locs (id_drv d) = Some l \<longrightarrow>
        \<lparr>id_m = id_drv d, position = (Some (latitude l), Some (longitude l))\<rparr>
          \<in> set (availableMarkers drivers locs)"
    unfolding availableMarkers_def set_projection a [symmetric]
    using toMarker_Own by blast
  have em: "d \<in> set drivers \<and>
        (toLowerCase (status d) = toLowerCase ''busy'' \<or>
         toLowerCase (status d) = toLowerCase ''on_trip'') \<and>
        locs (id_drv d) = Some l \<longrightarrow>
        \<lparr>id_m = id_drv d, position = (Some (latitude l), Some (longitude l))\<rparr>
          \<in> set (engagedMarkers drivers locs)"
    unfolding engagedMarkers_def set_projection e [symmetric]
    using toMarker_Own by blast
  have ex: "isAvailableStatus (d\<lparr>status := ''Online''\<rparr>)" "isAvailableStatus (d\<lparr>status := ''ONLINE''\<rparr>)"
    "isEngagedStatus (d\<lparr>status := ''BUSY''\<rparr>)" "isEngagedStatus (d\<lparr>status := ''On_Trip''\<rparr>)"
    by (simp_all add: isAvailableStatus_def isEngagedStatus_def Let_def lower_examples)
  from a e am em ex show ?thesis by blast
qed

theorem status_case_insensitive_witness:
  "toLowerCase (status \<lparr>id_drv = ''D7'', status = ''ONLINE''\<rparr>) = toLowerCase ''online''
   \<and> \<lparr>id_m = ''D7'', position = (Some 1, Some 2)\<rparr>
       \<in> set (availableMarkers [\<lparr>id_drv = ''D7'', status = ''ONLINE''\<rparr>]
                [''D7'' \<mapsto> \<lparr>latitude = 1, longitude = 2, updatedAt = 5\<rparr>])
   \<and> toLowerCase (status \<lparr>id_drv = ''D8'', status = ''On_Trip''\<rparr>) = toLowerCase ''on_trip''
   \<and> \<lparr>id_m = ''D8'', position = (Some 3, Some 4)\<rparr>
       \<in> set (engagedMarkers [\<lparr>id_drv = ''D8'', status = ''On_Trip''\<rparr>]
                [''D8'' \<mapsto> \<lparr>latitude = 3, longitude = 4, updatedAt = 5\<rparr>])"
proof -
  have l1: "toLowerCase (status \<lparr>id_drv = ''D7'', status = ''ONLINE''\<rparr>) = toLowerCase ''online''"
    by (simp add: lower_examples)
  have l2: "toLowerCase (status \<lparr>id_drv = ''D8'', status = ''On_Trip''\<rparr>) = toLowerCase ''on_trip''"
    by (simp add: lower_examples)
  show ?thesis
    using l1 l2
      status_case_insensitive [of "\<lparr>id_drv = ''D7'', status = ''ONLINE''\<rparr>"
        "[\<lparr>id_drv = ''D7'', status = ''ONLINE''\<rparr>]"
        "[''D7'' \<mapsto> \<lparr>latitude = 1, longitude = 2, updatedAt = 5\<rparr>]"
        "\<lparr>latitude = 1, longitude = 2, updatedAt = 5\<rparr>"]
      status_case_insensitive [of "\<lparr>id_drv = ''D8'', status = ''On_Trip''\<rparr>"
        "[\<lparr>id_drv = ''D8'', status = ''On_Trip''\<rparr>]"
        "[''D8'' \<mapsto> \<lparr>latitude = 3, longitude = 4, updatedAt = 5\<rparr>]"
        "\<lparr>latitude = 3, longitude = 4, updatedAt = 5\<rparr>"]
    by simp
qed

section \<open>Properties of the location cache\<close>

lemma recordLocations_snoc:
  "recordLocations (evs @ [(now, ev)]) cache = onLocation now ev (recordLocations evs cache)"
  by (induction evs arbitrary: cache) auto

text \<open>
  Last write wins, for every id: after a sequence of location events the read of an id
  gives the entry written by the last event with that id, and what the read gave before
  when the sequence has no event with that id.
\<close>

lemma last_write_wins_member:
  "getMember (recordLocations evs cache) entityId =
     (case find (\<lambda>(now, ev). driverId ev = entityId) (rev evs) of
        None \<Rightarrow> getMember cache entityId
      | Some (now, ev) \<Rightarrow>
          Own \<lparr>latitude = latitude_ev ev, longitude = longitude_ev ev, updatedAt = now\<rparr>)"
proof (induction evs rule: rev_induct)
  case Nil
  show ?case by simp
next
  case (snoc x xs)
  obtain now ev where x: "x = (now, ev)" by (cases x)
  show ?case
  proof (cases "driverId ev = entityId")
    case True
    then show ?thesis by (simp add: x recordLocations_snoc onLocation_def getMember_def)
  next
    case False
    then show ?thesis using snoc.IH
      by (simp add: x recordLocations_snoc onLocation_def getMember_def)
  qed
qed

text \<open>
  From the empty cache, an id that is not the name of an inherited member reads as
  undefined exactly when no event carried it.
\<close>

lemma plain_id_absent_iff_no_event:
  assumes "entityId \<notin> set objectPrototypeNames"
  shows "getMember (recordLocations evs Map.empty) entityId = Undefined \<longleftrightarrow>
           find (\<lambda>(now, ev). driverId ev = entityId) (rev evs) = None"
  using assms unfolding last_write_wins_member
  by (auto simp: getMember_def split: option.splits)

text \<open>
  C2, at an input where the code departs from it. After one event for D2, no event has
  occurred for the id \<^verbatim>\<open>toString\<close>, yet the read of that id is not absent: it gives the
  inherited member, which is truthy, so the projection takes the id as located, with
  undefined coordinates.
\<close>

theorem inherited_id_not_absent:
  "find (\<lambda>(now, ev). driverId ev = ''toString'')
     (rev [(1::int, \<lparr>driverId = ''D2'', latitude_ev = -15.78, longitude_ev = 35.01\<rparr>)]) = None
   \<and> getMember
        (recordLocations [(1, \<lparr>driverId = ''D2'', latitude_ev = -15.78, longitude_ev = 35.01\<rparr>)]
           Map.empty) ''toString'' = Inherited
   \<and> truthyMember Inherited
   \<and> toMarker
        (recordLocations [(1, \<lparr>driverId = ''D2'', latitude_ev = -15.78, longitude_ev = 35.01\<rparr>)]
           Map.empty) \<lparr>id_drv = ''toString'', status = ''online''\<rparr>
      = Some \<lparr>id_m = ''toString'', position = (None, None)\<rparr>"
proof -
  have inh: "''toString'' \<in> set objectPrototypeNames"
    by (simp add: objectPrototypeNames_def)
  have g: "getMember
        (recordLocations [(1, \<lparr>driverId = ''D2'', latitude_ev = -15.78, longitude_ev = 35.01\<rparr>)]
           Map.empty) ''toString'' = Inherited"
    by (simp add: onLocation_def getMember_def inh)
  have t: "toMarker
        (recordLocations [(1, \<lparr>driverId = ''D2'', latitude_ev = -15.78, longitude_ev = 35.01\<rparr>)]
           Map.empty) \<lparr>id_drv = ''toString'', status = ''online''\<rparr>
      = Some \<lparr>id_m = ''toString'', position = (None, None)\<rparr>"
    by (simp add: toMarker_def onLocation_def getMember_def inh)
  have f: "find (\<lambda>(now, ev). driverId ev = ''toString'')
     (rev [(1::int, \<lparr>driverId = ''D2'', latitude_ev = -15.78, longitude_ev = 35.01\<rparr>)]) = None"
    by simp
  from f g t show ?thesis by simp
qed

section \<open>Properties of the event handlers\<close>

text \<open>
  C3. Processing a DriverLocationUpdated event with driver id d and coordinates
  (lat, lng) succeeds; afterwards the location cache maps d to exactly (lat, lng), and
  the invalidated query groups are the same as before: the event invalidates none.
\<close>

theorem location_event_routed_to_cache:
  "\<exists>s'. dispatch now (DriverLocationUpdated \<lparr>driverId = d, latitude_ev = lat, longitude_ev = lng\<rparr>) s = Inr s'
      \<and> getLocation s' d = Some (Some lat, Some lng)
      \<and> locationsByDriverId s' d = Some \<lparr>latitude = lat, longitude = lng, updatedAt = now\<rparr>
      \<and> invalidated s' = invalidated s
      \<and> staleGroups s' = staleGroups s
      \<and> toast s' = toast s
      \<and> connectionState s' = connectionState s"
  by (simp add: mapOnLocation_def onDriverLocationUpdated_def onLocation_def getLocation_def
      getMember_def staleGroups_def)

theorem location_event_routed_to_cache_witness:
  "getLocation
     (projr (dispatch 1000
        (DriverLocationUpdated \<lparr>driverId = ''D2'', latitude_ev = -15.78, longitude_ev = 35.01\<rparr>)
        initialState)) ''D2'' = Some (Some (-15.78), Some 35.01)
   \<and> staleGroups
     (projr (dispatch 1000
        (DriverLocationUpdated \<lparr>driverId = ''D2'', latitude_ev = -15.78, longitude_ev = 35.01\<rparr>)
        initialState)) = {}"
proof -
  obtain s' where
    d: "dispatch 1000
        (DriverLocationUpdated \<lparr>driverId = ''D2'', latitude_ev = -15.78, longitude_ev = 35.01\<rparr>)
        initialState = Inr s'"
    and g: "getLocation s' ''D2'' = Some (Some (-15.78), Some 35.01)"
    and st: "staleGroups s' = staleGroups initialState"
    using location_event_routed_to_cache [of 1000 "''D2''" "-15.78" "35.01" initialState]
    by blast
  have e: "staleGroups initialState = {}"
    by (simp add: initialState_def staleGroups_def)
  show ?thesis unfolding d sum.sel g st e by simp
qed

text \<open>
  C4. Processing a DriverApproved event for a driver with id D invalidates exactly the
  four query groups pendingDrivers, drivers, adminStats and driver:D, in this order, and
  leaves the location cache as it was.
\<close>

theorem driver_approved_invalidates_four_groups:
  "\<exists>s'. dispatch now (DriverApproved (Some \<lparr>id_ev = Some D, fullName = n\<rparr>)) s = Inr s'
      \<and> invalidated s' = invalidated s @
           [[Some ''pendingDrivers''], [Some ''drivers''], [Some ''adminStats''],
            [Some ''driver'', Some D]]
      \<and> staleGroups s' = staleGroups s \<union>
           {[Some ''pendingDrivers''], [Some ''drivers''], [Some ''adminStats''],
            [Some ''driver'', Some D]}
      \<and> locationsByDriverId s' = locationsByDriverId s
      \<and> connectionState s' = connectionState s"
  by (auto simp: onDriverApproved_def showToast_def invalidateQueries_def staleGroups_def Let_def)

theorem driver_approved_invalidates_four_groups_witness:
  "staleGroups (projr (dispatch 7 (DriverApproved (Some \<lparr>id_ev = Some ''D1'', fullName = Some ''Ann''\<rparr>))
      initialState)) =
     {[Some ''pendingDrivers''], [Some ''drivers''], [Some ''adminStats''], [Some ''driver'', Some ''D1'']}
   \<and> locationsByDriverId (projr (dispatch 7 (DriverApproved (Some \<lparr>id_ev = Some ''D1'', fullName = Some ''Ann''\<rparr>))
      initialState)) = Map.empty"
proof -
  obtain s' where
    d: "dispatch 7 (DriverApproved (Some \<lparr>id_ev = Some ''D1'', fullName = Some ''Ann''\<rparr>)) initialState = Inr s'"
    and st: "staleGroups s' = staleGroups initialState \<union>
           {[Some ''pendingDrivers''], [Some ''drivers''], [Some ''adminStats''],
            [Some ''driver'', Some ''D1'']}"
    and loc: "locationsByDriverId s' = locationsByDriverId initialState"
    using driver_approved_invalidates_four_groups [of 7 "''D1''" "Some ''Ann''" initialState]
    by blast
  have e: "staleGroups initialState = {}"
    by (simp add: initialState_def staleGroups_def)
  have l: "locationsByDriverId initialState = Map.empty"
    by (simp add: initialState_def)
  show ?thesis
    unfolding d sum.sel st loc e l by simp
qed

section \<open>Properties of the heat layer\<close>

lemma adjustedRadius_antimono: "z1 \<le> z2 \<Longrightarrow> adjustedRadius z2 \<le> adjustedRadius z1"
  by (simp add: adjustedRadius_def baseRadius_def zoomFactor_def)

text \<open>
  C5. The heat radius of a zoom level z is the clamp of 26 * (1 + (12 - z) * 0.2) to
  the interval from 10 to 50: it does not increase when z increases, and for every zoom
  level it is at least 10 and at most 50.
\<close>

theorem heatRadius_antimono_clamped:
  "(z1 \<le> z2 \<longrightarrow> heatRadius z2 \<le> heatRadius z1)
   \<and> 10 \<le> heatRadius z \<and> heatRadius z \<le> 50
   \<and> heatRadius z = max 10 (min 50 (26 * (1 + (12 - z) * 0.2)))"
proof -
  have mono: "z1 \<le> z2 \<longrightarrow> heatRadius z2 \<le> heatRadius z1"
  proof
    assume "z1 \<le> z2"
    then have "adjustedRadius z2 \<le> adjustedRadius z1" by (rule adjustedRadius_antimono)
    then have "min 50 (adjustedRadius z2) \<le> min 50 (adjustedRadius z1)"
      by (simp add: min.coboundedI2)
    then show "heatRadius z2 \<le> heatRadius z1"
      unfolding heatRadius_def by (simp add: max.coboundedI2)
  qed
  have lo: "10 \<le> heatRadius z" by (simp add: heatRadius_def)
  have hi: "heatRadius z \<le> 50" by (simp add: heatRadius_def)
  have form: "heatRadius z = max 10 (min 50 (26 * (1 + (12 - z) * 0.2)))"
    by (simp add: heatRadius_def adjustedRadius_def baseRadius_def zoomFactor_def)
  from mono lo hi form show ?thesis by blast
qed

lemma heatRadius_values:
  "heatRadius 10 = 36.4" "heatRadius 14 = 15.6" "heatRadius 0 = 50" "heatRadius 18 = 10"
  by (simp_all add: heatRadius_def adjustedRadius_def baseRadius_def zoomFactor_def)

theorem heatRadius_antimono_clamped_witness:
  "(10::real) \<le> 14 \<and> heatRadius 14 \<le> heatRadius 10
   \<and> heatRadius 10 = 36.4 \<and> heatRadius 14 = 15.6 \<and> heatRadius 0 = 50 \<and> heatRadius 18 = 10"
  using heatRadius_antimono_clamped [of 10 14 0] heatRadius_values by simp

text \<open>
  C6. In supply mode, for every snapshot and cache, the point cloud is one point of
  weight 0.4 per available marker followed by one point of weight 1 per engaged marker,
  at the marker's position, and nothing else; so the weight of every engaged point is
  at least the weight of every available point.
\<close>

theorem supply_heat_points:
  "liveMapHeatPoints supply_mode rides resp locs =
     map (\<lambda>m. (fst (position m), snd (position m), 0.4)) (availableMarkers (orEmpty resp) locs) @
     map (\<lambda>m. (fst (position m), snd (position m), 1)) (engagedMarkers (orEmpty resp) locs)
   \<and> length (liveMapHeatPoints supply_mode rides resp locs) =
       length (availableMarkers (orEmpty resp) locs) + length (engagedMarkers (orEmpty resp) locs)
   \<and> (\<forall>i < length (liveMapHeatPoints supply_mode rides resp locs).
        weight (liveMapHeatPoints supply_mode rides resp locs ! i) =
          (if i < length (availableMarkers (orEmpty resp) locs) then 0.4 else 1))
   \<and> (\<forall>p \<in> set (map (\<lambda>m. (fst (position m), snd (position m), 1))
                    (engagedMarkers (orEmpty resp) locs)).
      \<forall>q \<in> set (map (\<lambda>m. (fst (position m), snd (position m), 0.4))
                    (availableMarkers (orEmpty resp) locs)).
        weight p = 1 \<and> weight q = 0.4 \<and> weight q \<le> weight p)"
proof -
  have eq: "liveMapHeatPoints supply_mode rides resp locs =
     map (\<lambda>m. (fst (position m), snd (position m), 0.4)) (availableMarkers (orEmpty resp) locs) @
     map (\<lambda>m. (fst (position m), snd (position m), 1)) (engagedMarkers (orEmpty resp) locs)"
    by (simp add: liveMapHeatPoints_def heatPoints_def Let_def)
  have len: "length (liveMapHeatPoints supply_mode rides resp locs) =
       length (availableMarkers (orEmpty resp) locs) + length (engagedMarkers (orEmpty resp) locs)"
    unfolding eq by simp
  have idx: "\<forall>i < length (liveMapHeatPoints supply_mode rides resp locs).
        weight (liveMapHeatPoints supply_mode rides resp locs ! i) =
          (if i < length (availableMarkers (orEmpty resp) locs) then 0.4 else 1)"
    unfolding eq by (auto simp: nth_append weight_def)
  have w: "\<forall>p \<in> set (map (\<lambda>m. (fst (position m), snd (position m), 1))
                    (engagedMarkers (orEmpty resp) locs)).
      \<forall>q \<in> set (map (\<lambda>m. (fst (position m), snd (position m), 0.4))
                    (availableMarkers (orEmpty resp) locs)).
        weight p = 1 \<and> weight q = 0.4 \<and> weight q \<le> weight p"
    by (auto simp: weight_def)
  from eq len idx w show ?thesis by blast
qed

theorem supply_heat_points_witness:
  "liveMapHeatPoints supply_mode None
     (Some [\<lparr>id_drv = ''A'', status = ''online''\<rparr>, \<lparr>id_drv = ''B'', status = ''on_trip''\<rparr>,
            \<lparr>id_drv = ''C'', status = ''offline''\<rparr>, \<lparr>id_drv = ''D'', status = ''busy''\<rparr>])
     [''A'' \<mapsto> \<lparr>latitude = 1, longitude = 2, updatedAt = 10\<rparr>,
      ''B'' \<mapsto> \<lparr>latitude = 3, longitude = 4, updatedAt = 11\<rparr>,
      ''C'' \<mapsto> \<lparr>latitude = 5, longitude = 6, updatedAt = 12\<rparr>]
     = [(Some 1, Some 2, 0.4), (Some 3, Some 4, 1)]
   \<and> weight (Some 1, Some 2, 0.4) = 0.4 \<and> weight (Some 3, Some 4, 1) = 1
   \<and> weight (Some 1, Some 2, 0.4) \<le> weight (Some 3, Some 4, 1)"
proof -
  let ?ds = "[\<lparr>id_drv = ''A'', status = ''online''\<rparr>, \<lparr>id_drv = ''B'', status = ''on_trip''\<rparr>,
            \<lparr>id_drv = ''C'', status = ''offline''\<rparr>, \<lparr>id_drv = ''D'', status = ''busy''\<rparr>]"
  let ?locs = "[''A'' \<mapsto> \<lparr>latitude = 1, longitude = 2, updatedAt = 10\<rparr>,
      ''B'' \<mapsto> \<lparr>latitude = 3, longitude = 4, updatedAt = 11\<rparr>,
      ''C'' \<mapsto> \<lparr>latitude = 5, longitude = 6, updatedAt = 12\<rparr>]"
  have av: "availableMarkers ?ds ?locs = [\<lparr>id_m = ''A'', position = (Some 1, Some 2)\<rparr>]"
    by (simp add: availableMarkers_def isAvailableStatus_def lower_examples
        filterBoolean_simps toMarker_def getMember_def)
  have en: "engagedMarkers ?ds ?locs = [\<lparr>id_m = ''B'', position = (Some 3, Some 4)\<rparr>]"
    by (simp add: engagedMarkers_def isEngagedStatus_def Let_def lower_examples
        filterBoolean_simps toMarker_def getMember_def objectPrototypeNames_def)
  have oe: "orEmpty (Some ?ds) = ?ds" by (simp add: orEmpty_def)
  have w: "weight (Some 1, Some 2, 0.4) = 0.4 \<and> weight (Some 3, Some 4, 1) = 1 \<and>
      weight (Some 1, Some 2, 0.4) \<le> weight (Some 3, Some 4, 1)"
    by (simp add: weight_def)
  from supply_heat_points [of None "Some ?ds" ?locs]
  have "liveMapHeatPoints supply_mode None (Some ?ds) ?locs =
     map (\<lambda>m. (fst (position m), snd (position m), 0.4)) (availableMarkers (orEmpty (Some ?ds)) ?locs) @
     map (\<lambda>m. (fst (position m), snd (position m), 1)) (engagedMarkers (orEmpty (Some ?ds)) ?locs)"
    by (rule conjunct1)
  then have "liveMapHeatPoints supply_mode None (Some ?ds) ?locs =
      [(Some 1, Some 2, 0.4), (Some 3, Some 4, 1)]"
    unfolding oe av en by simp
  then show ?thesis using w by blast
qed

section \<open>Properties of the connection state and the handlers\<close>

lemma dispatch_connectionState:
  "dispatch now ev s = Inr s' \<Longrightarrow> connectionState s' = connectionState s"
  by (cases ev)
    (auto simp: onDriverRegistered_def onDriverApproved_def onDriverRejected_def
      onDriverStatusChanged_def onDriverLocationUpdated_def mapOnLocation_def
      showToast_def invalidateQueries_def Let_def split: option.splits)

lemma dispatch_error_connectionState:
  "dispatch now ev s = Inl (e, s') \<Longrightarrow> connectionState s' = connectionState s"
  by (cases ev)
    (auto simp: onDriverRegistered_def onDriverApproved_def onDriverRejected_def
      onDriverStatusChanged_def invalidateQueries_def Let_def split: option.splits)

lemma absent_payload_throws:
  "dispatch now (DriverRegistered None) s = Inl (TypeError, s)"
  "dispatch now (DriverApproved None) s = Inl (TypeError, s)"
  "dispatch now (DriverRejected None) s = Inl (TypeError, s)"
  "dispatch now (DriverStatusChanged None) s =
     Inl (TypeError, s\<lparr>invalidated := invalidated s @ [[Some ''drivers''], [Some ''adminStats'']]\<rparr>)"
  by (simp_all add: onDriverRegistered_def onDriverApproved_def onDriverRejected_def
      onDriverStatusChanged_def invalidateQueries_def Let_def)

text \<open>
  C7. For the signals close, reconnecting, reconnected, from any state, the indicator
  takes exactly the values disconnected, reconnecting, connected, in this order. Every
  step that is not a lifecycle callback of the channel (a hub event, the expiry or the
  dismissal of a toast) leaves the indicator as it is, also when a handler throws, and
  a lifecycle callback sets it to the value that belongs to the callback, whatever the
  state was.
\<close>

theorem connection_indicator_sequence:
  "connectionStates [onclose, onreconnecting, onreconnected] s =
     [Disconnected, Reconnecting, Connected]
   \<and> ((\<forall>l. a \<noteq> Channel l) \<and> step now a s = Inr s' \<longrightarrow>
        connectionState s' = connectionState s)
   \<and> connectionState (lifecycle l s) =
        (case l of onclose \<Rightarrow> Disconnected | onreconnecting \<Rightarrow> Reconnecting
         | onreconnected \<Rightarrow> Connected | startResolved \<Rightarrow> Connected
         | startRejected \<Rightarrow> Disconnected)
   \<and> ((\<forall>l. a \<noteq> Channel l) \<and> step now a s = Inl (e, t) \<longrightarrow>
        connectionState t = connectionState s)"
proof -
  have seq: "connectionStates [onclose, onreconnecting, onreconnected] s =
     [Disconnected, Reconnecting, Connected]"
    by (simp add: Let_def)
  have frame: "(\<forall>l. a \<noteq> Channel l) \<and> step now a s = Inr s' \<longrightarrow>
        connectionState s' = connectionState s"
  proof (cases a)
    case (Hub ev)
    then show ?thesis by (auto dest: dispatch_connectionState)
  next
    case (Channel l)
    then show ?thesis by simp
  next
    case ToastTimeout
    then show ?thesis by (auto simp: toastTimeout_def)
  next
    case ToastDismiss
    then show ?thesis by (auto simp: dismissToast_def)
  qed
  have set: "connectionState (lifecycle l s) =
        (case l of onclose \<Rightarrow> Disconnected | onreconnecting \<Rightarrow> Reconnecting
         | onreconnected \<Rightarrow> Connected | startResolved \<Rightarrow> Connected
         | startRejected \<Rightarrow> Disconnected)"
    by (cases l) simp_all
  have thrown: "(\<forall>l. a \<noteq> Channel l) \<and> step now a s = Inl (e, t) \<longrightarrow>
        connectionState t = connectionState s"
  proof (cases a)
    case (Hub ev)
    then show ?thesis by (auto dest: dispatch_error_connectionState)
  next
    case (Channel l)
    then show ?thesis by simp
  next
    case ToastTimeout
    then show ?thesis by simp
  next
    case ToastDismiss
    then show ?thesis by simp
  qed
  from seq frame set thrown show ?thesis by blast
qed

theorem connection_indicator_sequence_witness:
  "connectionStates [onclose, onreconnecting, onreconnected] initialState =
     [Disconnected, Reconnecting, Connected]
   \<and> step 5 (Hub (DriverStatusChanged (Some \<lparr>id_ev = Some ''D1'', fullName = None\<rparr>)))
        (initialState\<lparr>connectionState := Reconnecting\<rparr>)
      = Inr (initialState\<lparr>connectionState := Reconnecting,
               invalidated := [[Some ''drivers''], [Some ''adminStats''], [Some ''driver'', Some ''D1'']]\<rparr>)
   \<and> connectionState (initialState\<lparr>connectionState := Reconnecting,
               invalidated := [[Some ''drivers''], [Some ''adminStats''], [Some ''driver'', Some ''D1'']]\<rparr>)
      = connectionState (initialState\<lparr>connectionState := Reconnecting\<rparr>)
   \<and> step 5 (Hub (DriverStatusChanged None)) (initialState\<lparr>connectionState := Reconnecting\<rparr>)
      = Inl (TypeError, initialState\<lparr>connectionState := Reconnecting,
               invalidated := [[Some ''drivers''], [Some ''adminStats'']]\<rparr>)
   \<and> connectionState (initialState\<lparr>connectionState := Reconnecting,
               invalidated := [[Some ''drivers''], [Some ''adminStats'']]\<rparr>)
      = connectionState (initialState\<lparr>connectionState := Reconnecting\<rparr>)"
proof -
  have th: "step 5 (Hub (DriverStatusChanged None)) (initialState\<lparr>connectionState := Reconnecting\<rparr>)
      = Inl (TypeError, initialState\<lparr>connectionState := Reconnecting,
               invalidated := [[Some ''drivers''], [Some ''adminStats'']]\<rparr>)"
    by (simp add: onDriverStatusChanged_def invalidateQueries_def initialState_def Let_def)
  have nt: "\<forall>l. Hub (DriverStatusChanged None) \<noteq> Channel l" by simp
  from connection_indicator_sequence
    [of "initialState\<lparr>connectionState := Reconnecting\<rparr>" "Hub (DriverStatusChanged None)" 5 _ _
        TypeError "initialState\<lparr>connectionState := Reconnecting,
               invalidated := [[Some ''drivers''], [Some ''adminStats'']]\<rparr>"]
  have ce: "connectionState (initialState\<lparr>connectionState := Reconnecting,
               invalidated := [[Some ''drivers''], [Some ''adminStats'']]\<rparr>)
      = connectionState (initialState\<lparr>connectionState := Reconnecting\<rparr>)"
    using th nt by blast
  have st: "step 5 (Hub (DriverStatusChanged (Some \<lparr>id_ev = Some ''D1'', fullName = None\<rparr>)))
        (initialState\<lparr>connectionState := Reconnecting\<rparr>)
      = Inr (initialState\<lparr>connectionState := Reconnecting,
               invalidated := [[Some ''drivers''], [Some ''adminStats''], [Some ''driver'', Some ''D1'']]\<rparr>)"
    by (simp add: onDriverStatusChanged_def invalidateQueries_def initialState_def Let_def)
  have nl: "\<forall>l. Hub (DriverStatusChanged (Some \<lparr>id_ev = Some ''D1'', fullName = None\<rparr>)) \<noteq> Channel l"
    by simp
  from connection_indicator_sequence [of initialState]
  have seq: "connectionStates [onclose, onreconnecting, onreconnected] initialState =
     [Disconnected, Reconnecting, Connected]" by (rule conjunct1)
  from connection_indicator_sequence
    [of "initialState\<lparr>connectionState := Reconnecting\<rparr>"
        "Hub (DriverStatusChanged (Some \<lparr>id_ev = Some ''D1'', fullName = None\<rparr>))" 5
        "initialState\<lparr>connectionState := Reconnecting,
               invalidated := [[Some ''drivers''], [Some ''adminStats''], [Some ''driver'', Some ''D1'']]\<rparr>"]
  have "connectionState (initialState\<lparr>connectionState := Reconnecting,
               invalidated := [[Some ''drivers''], [Some ''adminStats''], [Some ''driver'', Some ''D1'']]\<rparr>)
      = connectionState (initialState\<lparr>connectionState := Reconnecting\<rparr>)"
    using st nl by blast
  with seq st th ce show ?thesis by blast
qed

text \<open>
  C8, as amended. For a DriverRegistered, DriverApproved or DriverRejected payload
  object whose \<^verbatim>\<open>fullName\<close> is missing or empty, the notification names \<^verbatim>\<open>A driver\<close>; and
  the handler returns normally for every payload object, whichever of its fields are
  missing.
\<close>

theorem missing_name_uses_generic_label:
  "(fullName driver = None \<or> fullName driver = Some [] \<longrightarrow>
      (\<exists>s'. dispatch now (DriverRegistered (Some driver)) s = Inr s' \<and>
            toast s' = Some \<lparr>title = ''New driver registration'',
                              message = ''A driver is pending approval.''\<rparr>)
    \<and> (\<exists>s'. dispatch now (DriverApproved (Some driver)) s = Inr s' \<and>
            toast s' = Some \<lparr>title = ''Driver approved'', message = ''A driver was approved.''\<rparr>)
    \<and> (\<exists>s'. dispatch now (DriverRejected (Some driver)) s = Inr s' \<and>
            toast s' = Some \<lparr>title = ''Driver rejected'', message = ''A driver was rejected.''\<rparr>))
   \<and> (\<exists>s'. dispatch now (DriverRegistered (Some driver)) s = Inr s')
   \<and> (\<exists>s'. dispatch now (DriverApproved (Some driver)) s = Inr s')
   \<and> (\<exists>s'. dispatch now (DriverRejected (Some driver)) s = Inr s')"
proof -
  have g: "fullName driver = None \<or> fullName driver = Some [] \<Longrightarrow> nameOrGeneric driver = ''A driver''"
    by (auto simp: nameOrGeneric_def)
  have reg: "\<exists>s'. dispatch now (DriverRegistered (Some driver)) s = Inr s' \<and>
      toast s' = Some \<lparr>title = ''New driver registration'',
                        message = nameOrGeneric driver @ '' is pending approval.''\<rparr>"
    by (simp add: onDriverRegistered_def showToast_def invalidateQueries_def Let_def)
  have app: "\<exists>s'. dispatch now (DriverApproved (Some driver)) s = Inr s' \<and>
      toast s' = Some \<lparr>title = ''Driver approved'',
                        message = nameOrGeneric driver @ '' was approved.''\<rparr>"
    by (simp add: onDriverApproved_def showToast_def invalidateQueries_def Let_def)
  have rej: "\<exists>s'. dispatch now (DriverRejected (Some driver)) s = Inr s' \<and>
      toast s' = Some \<lparr>title = ''Driver rejected'',
                        message = nameOrGeneric driver @ '' was rejected.''\<rparr>"
    by (simp add: onDriverRejected_def showToast_def invalidateQueries_def Let_def)
  have lab: "fullName driver = None \<or> fullName driver = Some [] \<longrightarrow>
      (\<exists>s'. dispatch now (DriverRegistered (Some driver)) s = Inr s' \<and>
            toast s' = Some \<lparr>title = ''New driver registration'',
                              message = ''A driver is pending approval.''\<rparr>)
    \<and> (\<exists>s'. dispatch now (DriverApproved (Some driver)) s = Inr s' \<and>
            toast s' = Some \<lparr>title = ''Driver approved'', message = ''A driver was approved.''\<rparr>)
    \<and> (\<exists>s'. dispatch now (DriverRejected (Some driver)) s = Inr s' \<and>
            toast s' = Some \<lparr>title = ''Driver rejected'', message = ''A driver was rejected.''\<rparr>)"
  proof
    assume "fullName driver = None \<or> fullName driver = Some []"
    then have n: "nameOrGeneric driver = ''A driver''" by (rule g)
    from reg app rej show "(\<exists>s'. dispatch now (DriverRegistered (Some driver)) s = Inr s' \<and>
            toast s' = Some \<lparr>title = ''New driver registration'',
                              message = ''A driver is pending approval.''\<rparr>)
    \<and> (\<exists>s'. dispatch now (DriverApproved (Some driver)) s = Inr s' \<and>
            toast s' = Some \<lparr>title = ''Driver approved'', message = ''A driver was approved.''\<rparr>)
    \<and> (\<exists>s'. dispatch now (DriverRejected (Some driver)) s = Inr s' \<and>
            toast s' = Some \<lparr>title = ''Driver rejected'', message = ''A driver was rejected.''\<rparr>)"
      unfolding n by simp
  qed
  from reg app rej lab show ?thesis by blast
qed

theorem missing_name_uses_generic_label_witness:
  "fullName \<lparr>id_ev = None, fullName = None\<rparr> = None
   \<and> toast (projr (dispatch 1 (DriverRegistered (Some \<lparr>id_ev = None, fullName = None\<rparr>)) initialState))
       = Some \<lparr>title = ''New driver registration'', message = ''A driver is pending approval.''\<rparr>
   \<and> fullName \<lparr>id_ev = Some ''D1'', fullName = Some []\<rparr> = Some []
   \<and> toast (projr (dispatch 1 (DriverRejected (Some \<lparr>id_ev = Some ''D1'', fullName = Some []\<rparr>)) initialState))
       = Some \<lparr>title = ''Driver rejected'', message = ''A driver was rejected.''\<rparr>"
proof -
  let ?d1 = "\<lparr>id_ev = None, fullName = None\<rparr>"
  let ?d2 = "\<lparr>id_ev = Some ''D1'', fullName = Some []\<rparr>"
  have h1: "fullName ?d1 = None" by simp
  have h2: "fullName ?d2 = Some []" by simp
  from missing_name_uses_generic_label [of ?d1 1 initialState] h1
  obtain s1 where s1: "dispatch 1 (DriverRegistered (Some ?d1)) initialState = Inr s1"
    "toast s1 = Some \<lparr>title = ''New driver registration'', message = ''A driver is pending approval.''\<rparr>"
    by blast
  from missing_name_uses_generic_label [of ?d2 1 initialState] h2
  obtain s2 where s2: "dispatch 1 (DriverRejected (Some ?d2)) initialState = Inr s2"
    "toast s2 = Some \<lparr>title = ''Driver rejected'', message = ''A driver was rejected.''\<rparr>"
    by blast
  show ?thesis unfolding s1 s2 sum.sel using h1 h2 by blast
qed

text \<open>
  C8 as stated fails for a payload that is missing altogether: a hub message with no
  argument makes each of the three handlers throw a TypeError at the read of
  \<^verbatim>\<open>driver.fullName\<close>, before anything is shown or invalidated.
\<close>

theorem absent_payload_counterexample:
  "dispatch 1 (DriverRegistered None) initialState = Inl (TypeError, initialState)
   \<and> dispatch 1 (DriverApproved None) initialState = Inl (TypeError, initialState)
   \<and> dispatch 1 (DriverRejected None) initialState = Inl (TypeError, initialState)
   \<and> isl (dispatch 1 (DriverApproved None) initialState)"
  by (simp add: onDriverRegistered_def onDriverApproved_def onDriverRejected_def)

section \<open>Properties of the hub URL\<close>

lemma endsWith_slash: "endsWith s ''/'' \<longleftrightarrow> s \<noteq> [] \<and> last s = CHR ''/''"
  by (cases s rule: rev_cases) (simp_all add: endsWith_def)

lemma stripTrailingSlash_snoc: "stripTrailingSlash (u @ ''/'') = u"
  by (simp add: stripTrailingSlash_def endsWith_slash)

lemma stripTrailingSlash_id: "\<not> endsWith u ''/'' \<Longrightarrow> stripTrailingSlash u = u"
  by (simp add: stripTrailingSlash_def)

lemma lower_slash: "toLowerChar c = CHR ''i'' \<Longrightarrow> c \<noteq> CHR ''/''"
proof
  assume a: "toLowerChar c = CHR ''i''" and "c = CHR ''/''"
  then have "toLowerChar CHR ''/'' = CHR ''i''" by simp
  moreover have "toLowerChar CHR ''/'' = CHR ''/''" by code_simp
  ultimately show False by simp
qed

lemma api_suffix_no_slash:
  assumes "toLowerCase sfx = ''/api''"
  shows "\<not> endsWith (origin @ sfx) ''/''" and "length sfx = 4"
proof -
  have "length (toLowerCase sfx) = length sfx" by (simp add: toLowerCase_def)
  with assms have len: "length sfx = 4" by simp
  then have ne: "sfx \<noteq> []" by auto
  from assms ne have "toLowerChar (last sfx) = last ''/api''"
    by (metis toLowerCase_def last_map)
  then have "last sfx \<noteq> CHR ''/''" by (simp add: lower_slash)
  with ne show "\<not> endsWith (origin @ sfx) ''/''" by (simp add: endsWith_slash)
  from len show "length sfx = 4" .
qed


lemma hubFromApi_suffix:
  assumes "toLowerCase sfx = ''/api''"
  shows "hubFromApi (origin @ sfx) = origin @ ''/hubs''"
    and "hubFromApi (origin @ sfx @ ''/'') = origin @ ''/hubs''"
proof -
  have len: "length sfx = 4" using assms by (rule api_suffix_no_slash(2))
  have low: "toLowerCase (origin @ sfx) = toLowerCase origin @ ''/api''"
    using assms by (simp add: toLowerCase_def)
  have drop: "dropApiSuffix (origin @ sfx) = origin"
    unfolding dropApiSuffix_def low using len by (simp add: endsWith_def)
  have strip: "stripTrailingSlash (origin @ sfx) = origin @ sfx"
    using api_suffix_no_slash(1) [OF assms] by (rule stripTrailingSlash_id)
  show "hubFromApi (origin @ sfx) = origin @ ''/hubs''"
    by (simp add: hubFromApi_def strip drop)
  have "stripTrailingSlash ((origin @ sfx) @ ''/'') = origin @ sfx"
    by (rule stripTrailingSlash_snoc)
  then show "hubFromApi (origin @ sfx @ ''/'') = origin @ ''/hubs''"
    by (simp add: hubFromApi_def drop)
qed

text \<open>
  C9, as amended. The hub URL is the explicit override (\<^verbatim>\<open>VITE_HUB_API_URL\<close>, else
  \<^verbatim>\<open>VITE_HUB_URL\<close>) when one is set and not empty, with one trailing slash stripped;
  otherwise, when the REST base URL is set and starts with \<^verbatim>\<open>http://\<close> or \<^verbatim>\<open>https://\<close>
  (in any letter case), it is derived from it: one trailing slash and then a trailing
  \<^verbatim>\<open>/api\<close> (in any letter case) removed, plus \<^verbatim>\<open>/hubs\<close>; otherwise, also when the REST base
  URL is set but is not such an absolute URL, it is the hardcoded fallback. The three
  conditions exclude each other and cover every configuration.
\<close>

theorem resolveHubBaseUrl_precedence:
  "(explicitHub env = Some u \<and> u \<noteq> [] \<longrightarrow> resolveHubBaseUrl env = stripTrailingSlash u)
   \<and> (\<not> truthy (explicitHub env) \<and> VITE_API_URL env = Some api \<and> isHttpUrl api \<longrightarrow>
        resolveHubBaseUrl env = hubFromApi api)
   \<and> (\<not> truthy (explicitHub env) \<and> (\<forall>x. VITE_API_URL env = Some x \<longrightarrow> \<not> isHttpUrl x) \<longrightarrow>
        resolveHubBaseUrl env = fallbackHubUrl)
   \<and> truthy (explicitHub env) = (\<exists>w. explicitHub env = Some w \<and> w \<noteq> [])
   \<and> explicitHub env =
        (if truthy (VITE_HUB_API_URL env) then VITE_HUB_API_URL env else VITE_HUB_URL env)
   \<and> stripTrailingSlash (v @ ''/'') = v
   \<and> (\<not> endsWith v ''/'' \<longrightarrow> stripTrailingSlash v = v)
   \<and> (toLowerCase sfx = ''/api'' \<longrightarrow>
        hubFromApi (origin @ sfx) = origin @ ''/hubs'' \<and>
        hubFromApi (origin @ sfx @ ''/'') = origin @ ''/hubs'')
   \<and> (\<not> endsWith (toLowerCase (stripTrailingSlash api)) ''/api'' \<longrightarrow>
        hubFromApi api = stripTrailingSlash api @ ''/hubs'')"
proof -
  have nh: "\<not> isHttpUrl []" by code_simp
  have b1: "explicitHub env = Some u \<and> u \<noteq> [] \<longrightarrow> resolveHubBaseUrl env = stripTrailingSlash u"
    by (simp add: resolveHubBaseUrl_def truthy_def Let_def)
  have b2: "\<not> truthy (explicitHub env) \<and> VITE_API_URL env = Some api \<and> isHttpUrl api \<longrightarrow>
        resolveHubBaseUrl env = hubFromApi api"
    using nh by (auto simp: resolveHubBaseUrl_def truthy_def Let_def)
  have b3: "\<not> truthy (explicitHub env) \<and> (\<forall>x. VITE_API_URL env = Some x \<longrightarrow> \<not> isHttpUrl x) \<longrightarrow>
        resolveHubBaseUrl env = fallbackHubUrl"
    by (auto simp: resolveHubBaseUrl_def truthy_def Let_def split: option.splits)
  have ex: "explicitHub env =
        (if truthy (VITE_HUB_API_URL env) then VITE_HUB_API_URL env else VITE_HUB_URL env)"
    by (simp add: explicitHub_def orElse_def)
  have tr: "truthy (explicitHub env) = (\<exists>w. explicitHub env = Some w \<and> w \<noteq> [])"
    by (cases "explicitHub env") (simp_all add: truthy_def)
  have s1: "stripTrailingSlash (v @ ''/'') = v" by (rule stripTrailingSlash_snoc)
  have s2: "\<not> endsWith v ''/'' \<longrightarrow> stripTrailingSlash v = v"
    by (simp add: stripTrailingSlash_id)
  have h1: "toLowerCase sfx = ''/api'' \<longrightarrow>
        hubFromApi (origin @ sfx) = origin @ ''/hubs'' \<and>
        hubFromApi (origin @ sfx @ ''/'') = origin @ ''/hubs''"
    using hubFromApi_suffix by blast
  have h2: "\<not> endsWith (toLowerCase (stripTrailingSlash api)) ''/api'' \<longrightarrow>
        hubFromApi api = stripTrailingSlash api @ ''/hubs''"
    by (simp add: hubFromApi_def dropApiSuffix_def)
  from b1 b2 b3 tr ex s1 s2 h1 h2 show ?thesis by blast
qed

theorem resolveHubBaseUrl_precedence_witness:
  "resolveHubBaseUrl \<lparr>VITE_HUB_API_URL = Some ''https://hub.example.com/hubs/'', VITE_HUB_URL = None,
                      VITE_API_URL = Some ''https://api.example.com/api''\<rparr>
     = ''https://hub.example.com/hubs''
   \<and> resolveHubBaseUrl \<lparr>VITE_HUB_API_URL = None, VITE_HUB_URL = Some [],
                        VITE_API_URL = Some ''https://api.example.com/API/''\<rparr>
     = ''https://api.example.com/hubs''
   \<and> resolveHubBaseUrl \<lparr>VITE_HUB_API_URL = None, VITE_HUB_URL = None, VITE_API_URL = Some ''/api''\<rparr>
     = fallbackHubUrl"
proof -
  let ?E1 = "\<lparr>VITE_HUB_API_URL = Some ''https://hub.example.com/hubs/'', VITE_HUB_URL = None,
                      VITE_API_URL = Some ''https://api.example.com/api''\<rparr>"
  let ?E2 = "\<lparr>VITE_HUB_API_URL = None, VITE_HUB_URL = Some [],
                        VITE_API_URL = Some ''https://api.example.com/API/''\<rparr>"
  let ?E3 = "\<lparr>VITE_HUB_API_URL = None, VITE_HUB_URL = None, VITE_API_URL = Some ''/api''\<rparr>"
  have x1: "explicitHub ?E1 = Some ''https://hub.example.com/hubs/''"
    by (simp add: explicitHub_def orElse_def truthy_def)
  have x2: "\<not> truthy (explicitHub ?E2)"
    by (simp add: explicitHub_def orElse_def truthy_def)
  have x3: "\<not> truthy (explicitHub ?E3)"
    by (simp add: explicitHub_def orElse_def truthy_def)
  have http: "isHttpUrl ''https://api.example.com/API/''" by code_simp
  have nhttp: "\<not> isHttpUrl ''/api''" by code_simp
  have low: "toLowerCase ''/API'' = ''/api''" by code_simp
  note p1 = resolveHubBaseUrl_precedence [where env = ?E1 and u = "''https://hub.example.com/hubs/''"
      and v = "''https://hub.example.com/hubs''"]
  note p2 = resolveHubBaseUrl_precedence [where env = ?E2 and api = "''https://api.example.com/API/''"
      and sfx = "''/API''" and origin = "''https://api.example.com''"]
  note p3 = resolveHubBaseUrl_precedence [where env = ?E3]
  have r1: "resolveHubBaseUrl ?E1 = ''https://hub.example.com/hubs''"
    using p1 x1 by simp
  have "resolveHubBaseUrl ?E2 = hubFromApi ''https://api.example.com/API/''"
    using p2 x2 http by simp
  moreover have "hubFromApi ''https://api.example.com/API/'' = ''https://api.example.com/hubs''"
    using p2 low by simp
  ultimately have r2: "resolveHubBaseUrl ?E2 = ''https://api.example.com/hubs''" by simp
  have r3: "resolveHubBaseUrl ?E3 = fallbackHubUrl"
    using p3 x3 nhttp by simp
  from r1 r2 r3 show ?thesis by blast
qed

text \<open>
  C9 as stated fails for a REST base URL that is set but relative: the configuration with
  no override and \<^verbatim>\<open>VITE_API_URL = /api\<close> resolves to the fallback, not to the URL
  \<^verbatim>\<open>/hubs\<close> derived from the REST base.
\<close>

theorem relative_api_url_counterexample:
  "resolveHubBaseUrl \<lparr>VITE_HUB_API_URL = None, VITE_HUB_URL = None, VITE_API_URL = Some ''/api''\<rparr>
     = ''https://ecoride-4560.onrender.com/hubs''
   \<and> specHubBaseUrl \<lparr>VITE_HUB_API_URL = None, VITE_HUB_URL = None, VITE_API_URL = Some ''/api''\<rparr>
     = ''/hubs''
   \<and> resolveHubBaseUrl \<lparr>VITE_HUB_API_URL = None, VITE_HUB_URL = None, VITE_API_URL = Some ''/api''\<rparr>
     \<noteq> specHubBaseUrl \<lparr>VITE_HUB_API_URL = None, VITE_HUB_URL = None, VITE_API_URL = Some ''/api''\<rparr>"
proof -
  have nh: "\<not> isHttpUrl ''/api''" by code_simp
  have hf: "hubFromApi ''/api'' = ''/hubs''" by code_simp
  have r: "resolveHubBaseUrl \<lparr>VITE_HUB_API_URL = None, VITE_HUB_URL = None, VITE_API_URL = Some ''/api''\<rparr>
     = ''https://ecoride-4560.onrender.com/hubs''"
    by (simp add: resolveHubBaseUrl_def explicitHub_def orElse_def truthy_def nh fallbackHubUrl_def)
  have sp: "specHubBaseUrl \<lparr>VITE_HUB_API_URL = None, VITE_HUB_URL = None, VITE_API_URL = Some ''/api''\<rparr>
     = ''/hubs''"
    by (simp add: specHubBaseUrl_def explicitHub_def orElse_def truthy_def hf)
  show ?thesis unfolding r sp by simp
qed

end
